theory Spec2Isabelle
  imports Main "HOL-Library.AList"
begin

section \<open>The configuration module \<open>docs/conf.py\<close>\<close>

text \<open>
  The repository's only source file is a Python module of thirty physical lines that the
  documentation builder executes once and whose global names it then reads as settings.
  The module is embedded as it stands: its text, line by line. The last line has no
  line terminator. A Python string literal that closes a line ends in a quote character,
  which a HOL string literal cannot end with, so that one character is appended as
  \<open>[CHR 0x27]\<close>.
\<close>

definition source_lines :: "string list" where
  "source_lines =
    [''# Configuration file for the Sphinx documentation builder.'',
     ''#'',
     ''# For the full list of built-in configuration values, see the documentation:'',
     ''# https://www.sphinx-doc.org/en/master/usage/configuration.html'',
     '''',
     ''# -- Project information -----------------------------------------------------'',
     ''# https://www.sphinx-doc.org/en/master/usage/configuration.html#project-information'',
     '''',
     ''project = 'Neyson'' @ [CHR 0x27],
     ''copyright = '2025, Shahriar Rezghi'' @ [CHR 0x27],
     ''author = 'Shahriar Rezghi'' @ [CHR 0x27],
     ''release = '2025'' @ [CHR 0x27],
     '''',
     ''# -- General configuration ---------------------------------------------------'',
     ''# https://www.sphinx-doc.org/en/master/usage/configuration.html#general-configuration'',
     '''',
     ''extensions = ['breathe', 'sphinx_rtd_theme', 'sphinx_togglebutton']'',
     '''',
     ''templates_path = ['_templates']'',
     ''exclude_patterns = ['_build', 'Thumbs.db', '.DS_Store']'',
     '''',
     ''breathe_projects = {'Neyson': '_build/xml/'}'',
     ''breathe_default_project = 'Neyson'' @ [CHR 0x27],
     '''',
     ''# -- Options for HTML output -------------------------------------------------'',
     ''# https://www.sphinx-doc.org/en/master/usage/configuration.html#options-for-html-output'',
     '''',
     ''html_theme = 'sphinx_rtd_theme'' @ [CHR 0x27],
     ''html_static_path = ['_static']'',
     ''html_logo = '_static/logo-64.png'' @ [CHR 0x27]]"

section \<open>The fragment of Python the module is written in\<close>

subsection \<open>Tokens\<close>

text \<open>
  The token kinds carry the names of Python's tokenizer. Only the tokens of simple
  assignments of string, list and dict displays are recognised; any other character
  (a parenthesis, an operator, a digit that starts a number, a double quote, a backslash)
  makes the line fall outside the fragment, which is the result \<open>None\<close>.
\<close>

datatype token =
    NAME string | STRING string
  | EQUAL | LSQB | RSQB | LBRACE | RBRACE | COMMA | COLON

definition is_space :: "char \<Rightarrow> bool" where
  "is_space c = (c = CHR '' '' \<or> c = CHR 0x09)"

definition is_name_start :: "char \<Rightarrow> bool" where
  "is_name_start c =
     (c \<in> set ''abcdefghijklmnopqrstuvwxyzABCDEFGHIJKLMNOPQRSTUVWXYZ_'')"

definition is_name_char :: "char \<Rightarrow> bool" where
  "is_name_char c = (is_name_start c \<or> c \<in> set ''0123456789'')"

fun op_token :: "char \<Rightarrow> token option" where
  "op_token c =
     (if c = CHR ''='' then Some EQUAL
      else if c = CHR ''['' then Some LSQB
      else if c = CHR '']'' then Some RSQB
      else if c = CHR ''{'' then Some LBRACE
      else if c = CHR ''}'' then Some RBRACE
      else if c = CHR '','' then Some COMMA
      else if c = CHR '':'' then Some COLON
      else None)"

text \<open>
  The tokenizer of one line. A \<open>#\<close> outside a string literal ends the line; a string
  literal is delimited by single quotes and must close on its line; the name and the
  literal being read are accumulated in the first argument.
\<close>

fun tokenize :: "string \<Rightarrow> token list option"
  and name_tail :: "string \<Rightarrow> string \<Rightarrow> token list option"
  and string_tail :: "string \<Rightarrow> string \<Rightarrow> token list option"
where
  "tokenize [] = Some []"
| "tokenize (c # cs) =
     (if c = CHR ''#'' then Some []
      else if is_space c then tokenize cs
      else if c = CHR 0x27 then string_tail [] cs
      else if is_name_start c then name_tail [c] cs
      else (case op_token c of
              None \<Rightarrow> None
            | Some t \<Rightarrow> map_option ((#) t) (tokenize cs)))"
| "name_tail acc [] = Some [NAME acc]"
| "name_tail acc (c # cs) =
     (if is_name_char c then name_tail (acc @ [c]) cs
      else map_option ((#) (NAME acc)) (tokenize (c # cs)))"
| "string_tail acc [] = None"
| "string_tail acc (c # cs) =
     (if c = CHR 0x27 then map_option ((#) (STRING acc)) (tokenize cs)
      else if c = CHR 0x5C then None
      else string_tail (acc @ [c]) cs)"

subsection \<open>Syntax\<close>

text \<open>
  A logical line of the fragment is blank, a comment, or an assignment of an expression
  to one name. An expression is an atom (a string literal or a name), a list display of
  atoms or a dict display of atom pairs. Compound statements, calls, operators,
  subscripts, nested displays and displays that run over several lines are outside the
  fragment.
\<close>

datatype atom = Str string | Name string

datatype expr =
    Atom atom
  | ListDisplay "atom list"
  | DictDisplay "(atom \<times> atom) list"

datatype line = Blank | Comment | Assign string expr

text \<open>Python's reserved words (\<open>keyword.kwlist\<close>): none of them is a name.\<close>

definition kwlist :: "string list" where
  "kwlist =
    [''False'', ''None'', ''True'', ''and'', ''as'', ''assert'', ''async'', ''await'',
     ''break'', ''class'', ''continue'', ''def'', ''del'', ''elif'', ''else'', ''except'',
     ''finally'', ''for'', ''from'', ''global'', ''if'', ''import'', ''in'', ''is'',
     ''lambda'', ''nonlocal'', ''not'', ''or'', ''pass'', ''raise'', ''return'', ''try'',
     ''while'', ''with'', ''yield'']"

fun parse_atom :: "token \<Rightarrow> atom option" where
  "parse_atom (STRING s) = Some (Str s)"
| "parse_atom (NAME x) = (if x \<in> set kwlist then None else Some (Name x))"
| "parse_atom _ = None"

text \<open>The items of a list display, after its opening bracket, up to the end of the line.\<close>

fun parse_items :: "token list \<Rightarrow> atom list option" where
  "parse_items [] = None"
| "parse_items [t] = (if t = RSQB then Some [] else None)"
| "parse_items (t # s # ts) =
     (case parse_atom t of
        None \<Rightarrow> None
      | Some a \<Rightarrow>
          if s = RSQB \<and> ts = [] then Some [a]
          else if s = COMMA then map_option ((#) a) (parse_items ts)
          else None)"

text \<open>The \<open>key: value\<close> pairs of a dict display, after its opening brace.\<close>

fun parse_pairs :: "token list \<Rightarrow> (atom \<times> atom) list option" where
  "parse_pairs (k # c # v # s # ts) =
     (case (parse_atom k, parse_atom v) of
        (Some a, Some b) \<Rightarrow>
          if c = COLON \<and> s = RBRACE \<and> ts = [] then Some [(a, b)]
          else if c = COLON \<and> s = COMMA then map_option ((#) (a, b)) (parse_pairs ts)
          else None
      | _ \<Rightarrow> None)"
| "parse_pairs [t] = (if t = RBRACE then Some [] else None)"
| "parse_pairs _ = None"

fun parse_expr :: "token list \<Rightarrow> expr option" where
  "parse_expr [] = None"
| "parse_expr (t # ts) =
     (if t = LSQB then map_option ListDisplay (parse_items ts)
      else if t = LBRACE then map_option DictDisplay (parse_pairs ts)
      else if ts = [] then map_option Atom (parse_atom t)
      else None)"

fun parse_stmt :: "token list \<Rightarrow> line option" where
  "parse_stmt (NAME x # EQUAL # ts) =
     (if x \<in> set kwlist then None else map_option (Assign x) (parse_expr ts))"
| "parse_stmt _ = None"

fun indented :: "string \<Rightarrow> bool" where
  "indented [] = False"
| "indented (c # cs) = is_space c"

text \<open>
  One physical line. A line without tokens is blank or a comment; a statement starts in
  the first column (the module has no block that a statement could be indented into).
\<close>

definition parse_line :: "string \<Rightarrow> line option" where
  "parse_line s =
     (case tokenize s of
        None \<Rightarrow> None
      | Some [] \<Rightarrow> Some (if list_all is_space s then Blank else Comment)
      | Some (t # ts) \<Rightarrow> if indented s then None else parse_stmt (t # ts))"

fun parse_module :: "string list \<Rightarrow> line list option" where
  "parse_module [] = Some []"
| "parse_module (s # ss) =
     (case parse_line s of
        None \<Rightarrow> None
      | Some l \<Rightarrow> map_option ((#) l) (parse_module ss))"

subsection \<open>Values and evaluation\<close>

text \<open>
  The values the fragment computes: strings, lists and dicts. A dict keeps its items in
  insertion order, and storing under a key that is present replaces the value in place,
  which is what \<open>AList.update\<close> does. Lists and dicts are not hashable and cannot be
  dict keys.
\<close>

datatype val = VStr string | VList "val list" | VDict "(val \<times> val) list"

datatype error = Unsupported | NameError string | TypeError

type_synonym namespace = "string \<rightharpoonup> val"

text \<open>
  A name is looked up in the module's globals, then among the builtins. The builtins of
  the interpreter and the globals the builder has put into the namespace before it
  executes the module are parameters (\<open>bi\<close> and the starting namespace).
\<close>

fun eval_atom :: "namespace \<Rightarrow> namespace \<Rightarrow> atom \<Rightarrow> error + val" where
  "eval_atom bi ns (Str s) = Inr (VStr s)"
| "eval_atom bi ns (Name x) =
     (case ns x of
        Some v \<Rightarrow> Inr v
      | None \<Rightarrow> (case bi x of Some v \<Rightarrow> Inr v | None \<Rightarrow> Inl (NameError x)))"

text \<open>Operands are evaluated from left to right; the first error ends the evaluation.\<close>

fun eval_atoms :: "namespace \<Rightarrow> namespace \<Rightarrow> atom list \<Rightarrow> error + val list" where
  "eval_atoms bi ns [] = Inr []"
| "eval_atoms bi ns (a # as) =
     (case eval_atom bi ns a of
        Inl e \<Rightarrow> Inl e
      | Inr v \<Rightarrow> (case eval_atoms bi ns as of Inl e \<Rightarrow> Inl e | Inr vs \<Rightarrow> Inr (v # vs)))"

fun eval_pairs ::
  "namespace \<Rightarrow> namespace \<Rightarrow> (atom \<times> atom) list \<Rightarrow> error + (val \<times> val) list" where
  "eval_pairs bi ns [] = Inr []"
| "eval_pairs bi ns ((a, b) # ps) =
     (case eval_atom bi ns a of
        Inl e \<Rightarrow> Inl e
      | Inr k \<Rightarrow>
          (case eval_atom bi ns b of
             Inl e \<Rightarrow> Inl e
           | Inr v \<Rightarrow>
               (case eval_pairs bi ns ps of Inl e \<Rightarrow> Inl e | Inr kvs \<Rightarrow> Inr ((k, v) # kvs))))"

fun hashable :: "val \<Rightarrow> bool" where
  "hashable (VStr s) = True"
| "hashable (VList vs) = False"
| "hashable (VDict kvs) = False"

text \<open>Building the dict from the evaluated pairs: an unhashable key is a TypeError.\<close>

fun build_map :: "(val \<times> val) list \<Rightarrow> (val \<times> val) list \<Rightarrow> error + (val \<times> val) list" where
  "build_map d [] = Inr d"
| "build_map d ((k, v) # kvs) =
     (if hashable k then build_map (AList.update k v d) kvs else Inl TypeError)"

fun eval_expr :: "namespace \<Rightarrow> namespace \<Rightarrow> expr \<Rightarrow> error + val" where
  "eval_expr bi ns (Atom a) = eval_atom bi ns a"
| "eval_expr bi ns (ListDisplay as) =
     (case eval_atoms bi ns as of Inl e \<Rightarrow> Inl e | Inr vs \<Rightarrow> Inr (VList vs))"
| "eval_expr bi ns (DictDisplay ps) =
     (case eval_pairs bi ns ps of
        Inl e \<Rightarrow> Inl e
      | Inr kvs \<Rightarrow> (case build_map [] kvs of Inl e \<Rightarrow> Inl e | Inr d \<Rightarrow> Inr (VDict d)))"

text \<open>An assignment binds the name in the module's globals, replacing an earlier binding.\<close>

fun exec_line :: "namespace \<Rightarrow> line \<Rightarrow> namespace \<Rightarrow> error + namespace" where
  "exec_line bi Blank ns = Inr ns"
| "exec_line bi Comment ns = Inr ns"
| "exec_line bi (Assign x e) ns =
     (case eval_expr bi ns e of Inl err \<Rightarrow> Inl err | Inr v \<Rightarrow> Inr (ns(x \<mapsto> v)))"

fun exec_lines :: "namespace \<Rightarrow> line list \<Rightarrow> namespace \<Rightarrow> error + namespace" where
  "exec_lines bi [] ns = Inr ns"
| "exec_lines bi (l # ls) ns =
     (case exec_line bi l ns of Inl err \<Rightarrow> Inl err | Inr ns' \<Rightarrow> exec_lines bi ls ns')"

text \<open>
  Executing a module: the whole text is parsed first, then its lines run in order on the
  starting namespace. The result is the final namespace or the error that stopped it.
\<close>

definition exec_module :: "namespace \<Rightarrow> string list \<Rightarrow> namespace \<Rightarrow> error + namespace" where
  "exec_module bi src ns =
     (case parse_module src of
        None \<Rightarrow> Inl Unsupported
      | Some ls \<Rightarrow> exec_lines bi ls ns)"

text \<open>
  The configuration: the value a name has after \<open>conf.py\<close> ran, if it ran and bound it.
\<close>

definition config :: "namespace \<Rightarrow> namespace \<Rightarrow> string \<Rightarrow> val option" where
  "config bi ns k =
     (case exec_module bi source_lines ns of Inl err \<Rightarrow> None | Inr ns' \<Rightarrow> ns' k)"

section \<open>The module, parsed\<close>

definition conf_ast :: "line list" where
  "conf_ast =
    [Comment, Comment, Comment, Comment, Blank, Comment, Comment, Blank,
     Assign ''project'' (Atom (Str ''Neyson'')),
     Assign ''copyright'' (Atom (Str ''2025, Shahriar Rezghi'')),
     Assign ''author'' (Atom (Str ''Shahriar Rezghi'')),
     Assign ''release'' (Atom (Str ''2025'')),
     Blank, Comment, Comment, Blank,
     Assign ''extensions''
       (ListDisplay [Str ''breathe'', Str ''sphinx_rtd_theme'', Str ''sphinx_togglebutton'']),
     Blank,
     Assign ''templates_path'' (ListDisplay [Str ''_templates'']),
     Assign ''exclude_patterns''
       (ListDisplay [Str ''_build'', Str ''Thumbs.db'', Str ''.DS_Store'']),
     Blank,
     Assign ''breathe_projects'' (DictDisplay [(Str ''Neyson'', Str ''_build/xml/'')]),
     Assign ''breathe_default_project'' (Atom (Str ''Neyson'')),
     Blank, Comment, Comment, Blank,
     Assign ''html_theme'' (Atom (Str ''sphinx_rtd_theme'')),
     Assign ''html_static_path'' (ListDisplay [Str ''_static'']),
     Assign ''html_logo'' (Atom (Str ''_static/logo-64.png''))]"

text \<open>The names a module assigns, in the order of its assignments.\<close>

fun targets :: "line list \<Rightarrow> string list" where
  "targets [] = []"
| "targets (Assign x e # ls) = x # targets ls"
| "targets (Blank # ls) = targets ls"
| "targets (Comment # ls) = targets ls"

definition assigned_names :: "string list \<Rightarrow> string list" where
  "assigned_names src = (case parse_module src of None \<Rightarrow> [] | Some ls \<Rightarrow> targets ls)"

text \<open>
  A line is declarative when it computes nothing: it is blank, a comment, or assigns a
  display built from string literals only, reading no name.
\<close>

fun literal_atom :: "atom \<Rightarrow> bool" where
  "literal_atom (Str s) = True"
| "literal_atom (Name x) = False"

fun literal :: "expr \<Rightarrow> bool" where
  "literal (Atom a) = literal_atom a"
| "literal (ListDisplay as) = list_all literal_atom as"
| "literal (DictDisplay ps) = list_all (\<lambda>(a, b). literal_atom a \<and> literal_atom b) ps"

fun declarative :: "line \<Rightarrow> bool" where
  "declarative Blank = True"
| "declarative Comment = True"
| "declarative (Assign x e) = literal e"

section \<open>The data model of the specification\<close>

text \<open>
  The specification's table of configuration keys, in its order: each key with its
  semantic type (string, ordered sequence of strings, mapping from string to string).
\<close>

datatype semantic_type = StringT | StringSeqT | StringMapT

definition config_keys :: "string list" where
  "config_keys =
    [''project'', ''copyright'', ''author'', ''release'', ''extensions'',
     ''templates_path'', ''exclude_patterns'', ''breathe_projects'',
     ''breathe_default_project'', ''html_theme'', ''html_static_path'', ''html_logo'']"

definition spec_data_model :: "(string \<times> semantic_type) list" where
  "spec_data_model =
    [(''project'', StringT),
     (''copyright'', StringT),
     (''author'', StringT),
     (''release'', StringT),
     (''extensions'', StringSeqT),
     (''templates_path'', StringSeqT),
     (''exclude_patterns'', StringSeqT),
     (''breathe_projects'', StringMapT),
     (''breathe_default_project'', StringT),
     (''html_theme'', StringT),
     (''html_static_path'', StringSeqT),
     (''html_logo'', StringT)]"

fun is_string :: "val \<Rightarrow> bool" where
  "is_string (VStr s) = True"
| "is_string (VList vs) = False"
| "is_string (VDict kvs) = False"

fun has_type :: "semantic_type \<Rightarrow> val \<Rightarrow> bool" where
  "has_type StringT v = is_string v"
| "has_type StringSeqT (VList vs) = list_all is_string vs"
| "has_type StringSeqT v = False"
| "has_type StringMapT (VDict kvs) = list_all (\<lambda>(k, v). is_string k \<and> is_string v) kvs"
| "has_type StringMapT v = False"

text \<open>A row of the table holds of a configuration when the key is bound to a value of its type.\<close>

definition typed :: "(string \<Rightarrow> val option) \<Rightarrow> string \<times> semantic_type \<Rightarrow> bool" where
  "typed c row = (case c (fst row) of None \<Rightarrow> False | Some v \<Rightarrow> has_type (snd row) v)"

text \<open>
  The kinds of setting. The first four are the ones the specification's purpose section
  lists: project metadata, the list of extensions to load, static and template path
  declarations, and the selection of the HTML theme. The keys are sorted into them by the
  meaning the specification's table gives each key and by the section of \<open>conf.py\<close> the
  key stands in: \<open>release\<close> stands with the project information, \<open>html_logo\<close> is a path
  into the static assets. The last two kinds are what is left: the patterns of sources to
  skip, and the settings of the Breathe extension.
\<close>

datatype category =
    Metadata | ExtensionList | PathDeclaration | ThemeSelection
  | SourceExclusion | BreatheSetting

definition spec_categories :: "category list" where
  "spec_categories = [Metadata, ExtensionList, PathDeclaration, ThemeSelection]"

definition category_of :: "string \<Rightarrow> category option" where
  "category_of k =
     (if k \<in> set [''project'', ''copyright'', ''author'', ''release''] then Some Metadata
      else if k = ''extensions'' then Some ExtensionList
      else if k \<in> set [''templates_path'', ''html_static_path'', ''html_logo'']
        then Some PathDeclaration
      else if k = ''html_theme'' then Some ThemeSelection
      else if k = ''exclude_patterns'' then Some SourceExclusion
      else if k \<in> set [''breathe_projects'', ''breathe_default_project'']
        then Some BreatheSetting
      else None)"

definition in_spec_categories :: "string \<Rightarrow> bool" where
  "in_spec_categories k =
     (case category_of k of None \<Rightarrow> False | Some c \<Rightarrow> c \<in> set spec_categories)"

section \<open>Paths\<close>

text \<open>
  The values that are paths use \<open>/\<close> as separator. A path lies under a directory when
  both are relative or both absolute and the directory's components are a proper prefix
  of the path's; empty components (a doubled or trailing separator) do not count.
\<close>

fun components_from :: "string \<Rightarrow> string \<Rightarrow> string list" where
  "components_from cur [] = (if cur = [] then [] else [cur])"
| "components_from cur (c # cs) =
     (if c = CHR ''/'' then (if cur = [] then [] else [cur]) @ components_from [] cs
      else components_from (cur @ [c]) cs)"

definition components :: "string \<Rightarrow> string list" where
  "components p = components_from [] p"

fun proper_prefix :: "'a list \<Rightarrow> 'a list \<Rightarrow> bool" where
  "proper_prefix xs [] = False"
| "proper_prefix [] (y # ys) = True"
| "proper_prefix (x # xs) (y # ys) = (x = y \<and> proper_prefix xs ys)"

fun is_absolute :: "string \<Rightarrow> bool" where
  "is_absolute [] = False"
| "is_absolute (c # cs) = (c = CHR ''/'')"

definition lies_under :: "string \<Rightarrow> string \<Rightarrow> bool" where
  "lies_under p d =
     (is_absolute p = is_absolute d \<and> components d \<noteq> [] \<and>
      proper_prefix (components d) (components p))"

fun under :: "val \<Rightarrow> val \<Rightarrow> bool" where
  "under (VStr p) (VStr d) = lies_under p d"
| "under v w = False"

section \<open>The module, executed\<close>

text \<open>The list \<open>conf_ast\<close> is what the parser makes of the thirty lines.\<close>

lemma parse_source: "parse_module source_lines = Some conf_ast"
  by code_simp

text \<open>
  Running the parsed module binds twelve names on top of whatever the starting namespace
  held; no line reads a name, so neither the builtins nor the starting namespace matter.
\<close>

lemma exec_conf_ast:
  "exec_lines bi conf_ast ns = Inr (ns
     (''project'' \<mapsto> VStr ''Neyson'',
      ''copyright'' \<mapsto> VStr ''2025, Shahriar Rezghi'',
      ''author'' \<mapsto> VStr ''Shahriar Rezghi'',
      ''release'' \<mapsto> VStr ''2025'',
      ''extensions'' \<mapsto>
         VList [VStr ''breathe'', VStr ''sphinx_rtd_theme'', VStr ''sphinx_togglebutton''],
      ''templates_path'' \<mapsto> VList [VStr ''_templates''],
      ''exclude_patterns'' \<mapsto>
         VList [VStr ''_build'', VStr ''Thumbs.db'', VStr ''.DS_Store''],
      ''breathe_projects'' \<mapsto> VDict [(VStr ''Neyson'', VStr ''_build/xml/'')],
      ''breathe_default_project'' \<mapsto> VStr ''Neyson'',
      ''html_theme'' \<mapsto> VStr ''sphinx_rtd_theme'',
      ''html_static_path'' \<mapsto> VList [VStr ''_static''],
      ''html_logo'' \<mapsto> VStr ''_static/logo-64.png''))"
  by (simp add: conf_ast_def)

lemma exec_source:
  "exec_module bi source_lines ns = exec_lines bi conf_ast ns"
  by (simp add: exec_module_def parse_source)

lemma config_eq:
  "config bi ns k = (ns
     (''project'' \<mapsto> VStr ''Neyson'',
      ''copyright'' \<mapsto> VStr ''2025, Shahriar Rezghi'',
      ''author'' \<mapsto> VStr ''Shahriar Rezghi'',
      ''release'' \<mapsto> VStr ''2025'',
      ''extensions'' \<mapsto>
         VList [VStr ''breathe'', VStr ''sphinx_rtd_theme'', VStr ''sphinx_togglebutton''],
      ''templates_path'' \<mapsto> VList [VStr ''_templates''],
      ''exclude_patterns'' \<mapsto>
         VList [VStr ''_build'', VStr ''Thumbs.db'', VStr ''.DS_Store''],
      ''breathe_projects'' \<mapsto> VDict [(VStr ''Neyson'', VStr ''_build/xml/'')],
      ''breathe_default_project'' \<mapsto> VStr ''Neyson'',
      ''html_theme'' \<mapsto> VStr ''sphinx_rtd_theme'',
      ''html_static_path'' \<mapsto> VList [VStr ''_static''],
      ''html_logo'' \<mapsto> VStr ''_static/logo-64.png'')) k"
  by (simp add: config_def exec_source exec_conf_ast)

lemma config_project: "config bi ns ''project'' = Some (VStr ''Neyson'')"
  by (simp add: config_eq)

lemma config_copyright: "config bi ns ''copyright'' = Some (VStr ''2025, Shahriar Rezghi'')"
  by (simp add: config_eq)

lemma config_author: "config bi ns ''author'' = Some (VStr ''Shahriar Rezghi'')"
  by (simp add: config_eq)

lemma config_release: "config bi ns ''release'' = Some (VStr ''2025'')"
  by (simp add: config_eq)

lemma config_extensions:
  "config bi ns ''extensions'' =
     Some (VList [VStr ''breathe'', VStr ''sphinx_rtd_theme'', VStr ''sphinx_togglebutton''])"
  by (simp add: config_eq)

lemma config_templates_path:
  "config bi ns ''templates_path'' = Some (VList [VStr ''_templates''])"
  by (simp add: config_eq)

lemma config_exclude_patterns:
  "config bi ns ''exclude_patterns'' =
     Some (VList [VStr ''_build'', VStr ''Thumbs.db'', VStr ''.DS_Store''])"
  by (simp add: config_eq)

lemma config_breathe_projects:
  "config bi ns ''breathe_projects'' = Some (VDict [(VStr ''Neyson'', VStr ''_build/xml/'')])"
  by (simp add: config_eq)

lemma config_breathe_default_project:
  "config bi ns ''breathe_default_project'' = Some (VStr ''Neyson'')"
  by (simp add: config_eq)

lemma config_html_theme: "config bi ns ''html_theme'' = Some (VStr ''sphinx_rtd_theme'')"
  by (simp add: config_eq)

lemma config_html_static_path:
  "config bi ns ''html_static_path'' = Some (VList [VStr ''_static''])"
  by (simp add: config_eq)

lemma config_html_logo: "config bi ns ''html_logo'' = Some (VStr ''_static/logo-64.png'')"
  by (simp add: config_eq)

lemmas config_value =
  config_project config_copyright config_author config_release config_extensions
  config_templates_path config_exclude_patterns config_breathe_projects
  config_breathe_default_project config_html_theme config_html_static_path config_html_logo

lemma assigned_names_source: "assigned_names source_lines = config_keys"
  by (simp add: assigned_names_def parse_source conf_ast_def config_keys_def)

lemma xml_under_build: "lies_under ''_build/xml/'' ''_build''"
  by code_simp

lemma logo_under_static: "lies_under ''_static/logo-64.png'' ''_static''"
  by code_simp

section \<open>Errors, and why declarative modules never raise\<close>

text \<open>
  The evaluator does raise on other modules: a name that is not bound, a list used as a
  dict key, and a statement outside the fragment each end the run with an error. Compound
  statements and calls are not lines of the fragment.
\<close>

lemma parse_unbound_name: "parse_module [''x = y''] = Some [Assign ''x'' (Atom (Name ''y''))]"
  by code_simp

lemma unbound_name_raises:
  "exec_module Map.empty [''x = y''] Map.empty = Inl (NameError ''y'')"
  unfolding exec_module_def parse_unbound_name by simp

lemma parse_unhashable_key:
  "parse_module [''k = ['a']'', ''d = {k: 'b'}''] =
     Some [Assign ''k'' (ListDisplay [Str ''a'']),
           Assign ''d'' (DictDisplay [(Name ''k'', Str ''b'')])]"
  by code_simp

lemma unhashable_key_raises:
  "exec_module Map.empty [''k = ['a']'', ''d = {k: 'b'}''] Map.empty = Inl TypeError"
  unfolding exec_module_def parse_unhashable_key by simp

lemma parse_import: "parse_module [''import os''] = None"
  by code_simp

lemma statement_outside_fragment:
  "exec_module Map.empty [''import os''] Map.empty = Inl Unsupported"
  unfolding exec_module_def parse_import by simp

lemma compound_statements_rejected:
  "parse_line ''if project:'' = None"
  "parse_line ''for x in extensions:'' = None"
  "parse_line ''while True:'' = None"
  "parse_line ''def setup(app):'' = None"
  "parse_line ''extensions.append('breathe')'' = None"
  by code_simp+

text \<open>
  A literal display evaluates to strings, whatever the namespaces hold, and a dict of
  string keys can always be built; so a module of declarative lines runs to its end and
  binds exactly the names it assigns on top of the starting namespace.
\<close>

lemma literal_atom_eval:
  "literal_atom a \<Longrightarrow> \<exists>s. eval_atom bi ns a = Inr (VStr s)"
  by (cases a) simp_all

lemma literal_atoms_eval:
  "list_all literal_atom as \<Longrightarrow> \<exists>vs. eval_atoms bi ns as = Inr vs \<and> list_all is_string vs"
proof (induction as)
  case Nil
  then show ?case by simp
next
  case (Cons a as)
  from Cons.prems have "literal_atom a" by simp
  then obtain s where s: "eval_atom bi ns a = Inr (VStr s)"
    using literal_atom_eval by blast
  from Cons.prems have "list_all literal_atom as" by simp
  then obtain vs where vs: "eval_atoms bi ns as = Inr vs" "list_all is_string vs"
    using Cons.IH by blast
  show ?case by (simp add: s vs)
qed

lemma literal_pairs_eval:
  "list_all (\<lambda>(a, b). literal_atom a \<and> literal_atom b) ps \<Longrightarrow>
   \<exists>kvs. eval_pairs bi ns ps = Inr kvs \<and> list_all (\<lambda>(k, v). is_string k \<and> is_string v) kvs"
proof (induction ps)
  case Nil
  then show ?case by simp
next
  case (Cons p ps)
  obtain a b where p: "p = (a, b)" by (cases p)
  from Cons.prems p have la: "literal_atom a" and lb: "literal_atom b" by simp_all
  obtain s where s: "eval_atom bi ns a = Inr (VStr s)"
    using literal_atom_eval [OF la] by blast
  obtain r where r: "eval_atom bi ns b = Inr (VStr r)"
    using literal_atom_eval [OF lb] by blast
  from Cons.prems have "list_all (\<lambda>(a, b). literal_atom a \<and> literal_atom b) ps" by simp
  then obtain kvs where kvs:
    "eval_pairs bi ns ps = Inr kvs" "list_all (\<lambda>(k, v). is_string k \<and> is_string v) kvs"
    using Cons.IH by blast
  show ?case by (simp add: p s r kvs)
qed

lemma build_map_string_keys:
  "list_all (\<lambda>(k, v). is_string k \<and> is_string v) kvs \<Longrightarrow> \<exists>d'. build_map d kvs = Inr d'"
proof (induction kvs arbitrary: d)
  case Nil
  then show ?case by simp
next
  case (Cons kv kvs)
  obtain k v where kv: "kv = (k, v)" by (cases kv)
  from Cons.prems kv have "is_string k" by simp
  then have h: "hashable k" by (cases k) simp_all
  from Cons.prems have "list_all (\<lambda>(k, v). is_string k \<and> is_string v) kvs" by simp
  then obtain d' where "build_map (AList.update k v d) kvs = Inr d'"
    using Cons.IH by blast
  then show ?case by (simp add: kv h)
qed

lemma literal_eval:
  assumes "literal e"
  shows "\<exists>v. eval_expr bi ns e = Inr v"
proof (cases e)
  case (Atom a)
  with assms have "literal_atom a" by simp
  then obtain s where "eval_atom bi ns a = Inr (VStr s)"
    using literal_atom_eval by blast
  with Atom show ?thesis by simp
next
  case (ListDisplay as)
  with assms have "list_all literal_atom as" by simp
  then obtain vs where "eval_atoms bi ns as = Inr vs"
    using literal_atoms_eval by blast
  with ListDisplay show ?thesis by simp
next
  case (DictDisplay ps)
  with assms have "list_all (\<lambda>(a, b). literal_atom a \<and> literal_atom b) ps" by simp
  then obtain kvs where kvs:
    "eval_pairs bi ns ps = Inr kvs" "list_all (\<lambda>(k, v). is_string k \<and> is_string v) kvs"
    using literal_pairs_eval by blast
  then obtain d where "build_map [] kvs = Inr d"
    using build_map_string_keys by blast
  with DictDisplay kvs show ?thesis by simp
qed

lemma declarative_lines_run:
  "list_all declarative ls \<Longrightarrow>
   \<exists>ns'. exec_lines bi ls ns = Inr ns' \<and> dom ns' = dom ns \<union> set (targets ls)"
proof (induction ls arbitrary: ns)
  case Nil
  then show ?case by simp
next
  case (Cons l ls)
  from Cons.prems have rest: "list_all declarative ls" by simp
  show ?case
  proof (cases l)
    case (Assign x e)
    with Cons.prems have "literal e" by simp
    then obtain v where v: "eval_expr bi ns e = Inr v"
      using literal_eval by blast
    obtain ns' where ns':
      "exec_lines bi ls (ns(x \<mapsto> v)) = Inr ns'"
      "dom ns' = dom (ns(x \<mapsto> v)) \<union> set (targets ls)"
      using Cons.IH [OF rest] by blast
    show ?thesis by (simp add: Assign v ns')
  next
    case Blank
    then show ?thesis using Cons.IH [OF rest] by simp
  next
    case Comment
    then show ?thesis using Cons.IH [OF rest] by simp
  qed
qed

section \<open>Properties of the configuration\<close>

text \<open>
  C1. The value of \<open>breathe_default_project\<close> is a key of the \<open>breathe_projects\<close>
  mapping, and \<open>breathe_projects\<close> maps that project name, \<open>Neyson\<close>, to its generated-XML
  directory \<open>_build/xml/\<close>.
\<close>

theorem breathe_default_project_is_key:
  "\<exists>d p. config bi ns ''breathe_projects'' = Some (VDict d)
       \<and> config bi ns ''breathe_default_project'' = Some p
       \<and> p = VStr ''Neyson''
       \<and> p \<in> fst ` set d
       \<and> map_of d p = Some (VStr ''_build/xml/'')"
  by (simp add: config_value)

text \<open>
  C2, as the specification words it: every name the file binds is project metadata, the
  list of extensions, a static or template path declaration, or the HTML theme selection.
  The file refutes it: \<open>breathe_projects\<close> is bound by the file and is a setting of the
  Breathe extension, which is none of the four.
\<close>

theorem breathe_projects_outside_spec_categories:
  "\<not> list_all in_spec_categories (assigned_names source_lines)
   \<and> ''breathe_projects'' \<in> set (assigned_names source_lines)
   \<and> category_of ''breathe_projects'' = Some BreatheSetting
   \<and> \<not> in_spec_categories ''breathe_projects''"
  by (simp add: assigned_names_source config_keys_def in_spec_categories_def
      category_of_def spec_categories_def)

text \<open>
  C2, amended: every name the file binds is project metadata (\<open>project\<close>, \<open>copyright\<close>,
  \<open>author\<close>, \<open>release\<close>), the list of extensions (\<open>extensions\<close>), a static or template
  path declaration (\<open>templates_path\<close>, \<open>html_static_path\<close>, \<open>html_logo\<close>), the HTML theme
  selection (\<open>html_theme\<close>), or one of three further settings: the source exclusion
  patterns (\<open>exclude_patterns\<close>) and the two Breathe settings (\<open>breathe_projects\<close>,
  \<open>breathe_default_project\<close>). Those three are the only bindings outside the four kinds.
\<close>

theorem bindings_by_category:
  "map category_of (assigned_names source_lines) =
     [Some Metadata, Some Metadata, Some Metadata, Some Metadata,
      Some ExtensionList, Some PathDeclaration, Some SourceExclusion,
      Some BreatheSetting, Some BreatheSetting,
      Some ThemeSelection, Some PathDeclaration, Some PathDeclaration]
   \<and> filter (\<lambda>k. \<not> in_spec_categories k) (assigned_names source_lines) =
     [''exclude_patterns'', ''breathe_projects'', ''breathe_default_project'']"
  by (simp add: assigned_names_source config_keys_def in_spec_categories_def
      category_of_def spec_categories_def)

text \<open>
  C3. Every configuration key has the semantic type the data-model table gives it: the
  table's keys are the names the file binds, and after the module ran each key is bound
  to a value of its row's type (a string, a list of strings, or a dict from strings to
  strings).
\<close>

theorem config_has_table_types:
  "map fst spec_data_model = assigned_names source_lines
   \<and> list_all (typed (config bi ns)) spec_data_model"
  by (simp add: assigned_names_source config_keys_def spec_data_model_def typed_def
      config_value)

text \<open>
  C4. The file is exactly thirty lines long. Every line is blank, a comment or an
  assignment of a literal display to a name: the parser of that fragment accepts the
  whole text, so there is no loop, conditional, function definition or call, and no
  assignment reads a name. The statements are twelve assignments to twelve different
  names, so each key is assigned exactly once, in one flat namespace.
\<close>

theorem module_is_declarative:
  "length source_lines = 30
   \<and> (\<exists>ls. parse_module source_lines = Some ls
          \<and> list_all declarative ls
          \<and> length (targets ls) = 12
          \<and> distinct (targets ls))"
  by (simp add: parse_source) (simp add: source_lines_def conf_ast_def)

text \<open>
  C5. The \<open>extensions\<close> sequence contains the plugin name \<open>breathe\<close>.
\<close>

theorem extensions_has_breathe:
  "\<exists>xs. config bi ns ''extensions'' = Some (VList xs) \<and> VStr ''breathe'' \<in> set xs"
  by (simp add: config_value)

text \<open>
  C6. The \<open>project\<close> key holds the display name of the documented project, the string
  \<open>Neyson\<close>: whatever the builtins and the starting namespace are, the module runs and
  afterwards \<open>project\<close> is bound to that string.
\<close>

theorem project_is_Neyson: "config bi ns ''project'' = Some (VStr ''Neyson'')"
  by (rule config_project)

text \<open>
  C7. Evaluating the configuration never raises an error: for every set of builtins and
  every starting namespace the module is accepted by the parser and runs to its end,
  and in the namespace it returns all twelve configuration keys are bound.
\<close>

theorem conf_runs_and_defines_keys:
  "\<exists>ns'. exec_module bi source_lines ns = Inr ns'
        \<and> list_all (\<lambda>k. k \<in> dom ns') config_keys
        \<and> length config_keys = 12
        \<and> distinct config_keys"
  by (simp add: exec_source exec_conf_ast config_keys_def)

text \<open>
  C8. The string assigned to \<open>html_theme\<close>, \<open>sphinx_rtd_theme\<close>, is also an element of
  the \<open>extensions\<close> sequence.
\<close>

theorem theme_in_extensions:
  "\<exists>t xs. config bi ns ''html_theme'' = Some t
        \<and> t = VStr ''sphinx_rtd_theme''
        \<and> config bi ns ''extensions'' = Some (VList xs)
        \<and> t \<in> set xs"
  by (simp add: config_value)

text \<open>
  C9. The generated-XML directory of every entry of \<open>breathe_projects\<close> lies under a
  directory listed in \<open>exclude_patterns\<close>: the mapping has the one entry \<open>Neyson\<close> with
  directory \<open>_build/xml/\<close>, and \<open>_build\<close> is an exclusion pattern.
\<close>

theorem xml_dirs_under_excluded:
  "\<exists>d xs. config bi ns ''breathe_projects'' = Some (VDict d)
        \<and> config bi ns ''exclude_patterns'' = Some (VList xs)
        \<and> d = [(VStr ''Neyson'', VStr ''_build/xml/'')]
        \<and> VStr ''_build'' \<in> set xs
        \<and> under (VStr ''_build/xml/'') (VStr ''_build'')
        \<and> list_all (\<lambda>(k, v). list_ex (under v) xs) d"
  by (simp add: config_value xml_under_build)

text \<open>
  C10. The \<open>html_logo\<close> path \<open>_static/logo-64.png\<close> lies under the sole entry of
  \<open>html_static_path\<close>, \<open>_static\<close>.
\<close>

theorem logo_under_static_path:
  "\<exists>p d. config bi ns ''html_logo'' = Some (VStr p)
        \<and> config bi ns ''html_static_path'' = Some (VList [VStr d])
        \<and> p = ''_static/logo-64.png''
        \<and> d = ''_static''
        \<and> lies_under p d"
  by (simp add: config_value logo_under_static)

end
